theory Spec2Isabelle
  imports Complex_Main "HOL-Library.Word" "HOL-Library.AList"
begin

section \<open>Chunked input of the decompression adapter (ParquetLayer.tsx, decompressData)\<close>

text \<open>
  \<^verbatim>\<open>const CHUNK_SIZE = 1000000; // Same chunk size as loaders.gl\<close>
\<close>

definition CHUNK_SIZE :: nat where
  "CHUNK_SIZE = 1000000"

text \<open>
  \<^verbatim>\<open>inputArray.subarray(begin, end)\<close> of a typed array, for \<open>0 \<le> begin \<le> end\<close>: both
  indices are clamped to the length, so a range that starts at or after the end of the
  array is the empty view.
\<close>

definition subarray :: "'a list \<Rightarrow> nat \<Rightarrow> nat \<Rightarrow> 'a list" where
  "subarray inputArray b e = take (e - b) (drop b inputArray)"

text \<open>
  The loop of lines 53 to 56, from the loop variable \<open>i\<close> on:
  \<^verbatim>\<open>
  const chunks: Uint8Array[] = [];
  for (let i = 0; i <= inputArray.length; i += CHUNK_SIZE) {
    chunks.push(inputArray.subarray(i, i + CHUNK_SIZE));
  }
  \<close>
  The loop test is \<open>i <= length\<close>, not \<open>i < length\<close>.
\<close>

function chunksFrom :: "nat \<Rightarrow> 'a list \<Rightarrow> 'a list list" where
  "chunksFrom i inputArray =
     (if i \<le> length inputArray
      then subarray inputArray i (i + CHUNK_SIZE) # chunksFrom (i + CHUNK_SIZE) inputArray
      else [])"
  by pat_completeness auto
termination
  by (relation "measure (\<lambda>(i, inputArray). Suc (length inputArray) - i)")
     (auto simp: CHUNK_SIZE_def)

declare chunksFrom.simps [simp del]

definition chunksOf :: "'a list \<Rightarrow> 'a list list" where
  "chunksOf inputArray = chunksFrom 0 inputArray"

section \<open>Values, rows and decoder output\<close>

type_synonym byte = "8 word"

text \<open>
  A JavaScript number: \<open>NaN\<close>, an infinity (\<open>True\<close> for the positive one) or a finite
  value. Negative zero is identified with zero: both are falsy and the code never tells them
  apart.
\<close>

datatype jsnum = NaN | Infinity bool | Finite real

text \<open>
  The values a decoded row can hold. \<open>VBytes\<close> is a \<^verbatim>\<open>Uint8Array\<close> (the only
  \<^verbatim>\<open>ArrayBuffer\<close> view the decoder produces); \<open>VObj\<close> lists an object's own properties in
  insertion order, with unique keys.
\<close>

datatype jsval =
    VUndefined
  | VNull
  | VBool bool
  | VNum jsnum
  | VStr string
  | VBytes "byte list"
  | VArr "jsval list"
  | VObj "(string \<times> jsval) list"

type_synonym row = "(string \<times> jsval) list"

text \<open>JavaScript truthiness, as tested by \<^verbatim>\<open>if (x)\<close>, \<^verbatim>\<open>!x\<close> and \<^verbatim>\<open>a && b\<close>.\<close>

fun truthy :: "jsval \<Rightarrow> bool" where
  "truthy VUndefined = False"
| "truthy VNull = False"
| "truthy (VBool b) = b"
| "truthy (VNum n) = (n \<noteq> NaN \<and> n \<noteq> Finite 0)"
| "truthy (VStr s) = (s \<noteq> [])"
| "truthy (VBytes bs) = True"
| "truthy (VArr vs) = True"
| "truthy (VObj kvs) = True"

text \<open>
  Reading a property \<^verbatim>\<open>row.latitude\<close>, \<^verbatim>\<open>row[geometryColumn]\<close> of a row object: a
  missing key reads as \<^verbatim>\<open>undefined\<close>.
\<close>

definition getField :: "row \<Rightarrow> string \<Rightarrow> jsval" where
  "getField r k = (case map_of r k of Some v \<Rightarrow> v | None \<Rightarrow> VUndefined)"

text \<open>
  Reading the property \<^verbatim>\<open>type\<close> or \<^verbatim>\<open>coordinates\<close> of a value \<^verbatim>\<open>v.k\<close>. Only an object
  can carry them; strings, numbers, booleans, arrays and typed arrays read as
  \<^verbatim>\<open>undefined\<close>. On \<^verbatim>\<open>null\<close> and \<^verbatim>\<open>undefined\<close> the read raises a TypeError;
  every read in the code is behind a truthiness test of the receiver, so that case is
  never evaluated.
\<close>

fun getProp :: "jsval \<Rightarrow> string \<Rightarrow> jsval" where
  "getProp (VObj kvs) k = getField kvs k"
| "getProp v k = VUndefined"

datatype schemaField = Field (name: string)

datatype schema = Schema (fields: "schemaField list")

text \<open>
  What \<^verbatim>\<open>load(..., ParquetLoader, ...)\<close> resolves with: either a bare array of rows, which
  has no \<^verbatim>\<open>schema\<close> property, or a table object with \<^verbatim>\<open>data\<close> and possibly
  \<^verbatim>\<open>schema\<close>.
\<close>

datatype parquetData =
    RowArray "row list"
  | Table "schema option" "row list"

text \<open>\<^verbatim>\<open>parquetData.schema\<close>\<close>

fun schemaOf :: "parquetData \<Rightarrow> schema option" where
  "schemaOf (RowArray rs) = None"
| "schemaOf (Table sch rs) = sch"

text \<open>\<^verbatim>\<open>Array.isArray(parquetData) ? parquetData : parquetData.data\<close>\<close>

fun rowsOf :: "parquetData \<Rightarrow> row list" where
  "rowsOf (RowArray rs) = rs"
| "rowsOf (Table sch rs) = rs"

text \<open>
  A pushed feature \<^verbatim>\<open>{ type: 'Feature', geometry, properties }\<close> and the published
  \<^verbatim>\<open>{ type: 'FeatureCollection', features }\<close>; the constant type tags are left out.
\<close>

record feature =
  geometry :: jsval
  properties :: row

datatype featureCollection = FeatureCollection (features: "feature list")

section \<open>Errors and external collaborators\<close>

text \<open>
  \<open>Error msg\<close> is \<^verbatim>\<open>new Error(msg)\<close> thrown by the component itself; \<open>TypeError\<close> is
  raised by the runtime; \<open>External\<close> is whatever \<^verbatim>\<open>fetch\<close>, the Parquet loader or the
  ZSTD codec throw.
\<close>

datatype error = Error string | TypeError string | External string

definition NoGeometryError :: error where
  "NoGeometryError = Error ''No geometry column or lat/lon columns found in Parquet data''"

definition EmptyResultError :: error where
  "EmptyResultError = Error ''No valid features found in Parquet data''"

definition NoDataReturned :: error where
  "NoDataReturned = Error ''ZSTD decompression failed - no data returned''"

text \<open>
  What \<^verbatim>\<open>await simpleZstd.decompressChunks(chunks)\<close> can do, seen from the statement
  \<^verbatim>\<open>return decompressResult.buffer\<close>: throw, resolve with \<^verbatim>\<open>null\<close> or \<^verbatim>\<open>undefined\<close> (reading
  \<^verbatim>\<open>.buffer\<close> then raises a TypeError), resolve with an object that has no \<^verbatim>\<open>buffer\<close>, or
  resolve with a typed array.
\<close>

datatype decompressResult =
    DecompressThrows error
  | DecompressNull
  | DecompressNoBuffer
  | DecompressArray "byte list"

text \<open>
  The library functions the component calls. They are parameters of the model: a function
  that can throw returns \<open>None\<close> or \<open>Inl\<close> for the exception.
\<close>

record externals =
  wkbToGeojson :: "byte list \<Rightarrow> jsval option"
  JSON_parse :: "string \<Rightarrow> jsval option"
  parseFloat :: "jsval \<Rightarrow> jsnum"
  fetch :: "string \<Rightarrow> error + byte list"
  load :: "byte list \<Rightarrow> error + parquetData"
  decompressChunks :: "byte list list \<Rightarrow> decompressResult"
  wkx_parse :: "byte list \<Rightarrow> jsval option"
  TextDecoder_decode :: "byte list \<Rightarrow> string"
  String_of :: "jsval \<Rightarrow> string"

section \<open>Geometry column discovery and per-row decoding (ParquetLayer.tsx, processParquetData)\<close>

text \<open>
  \<^verbatim>\<open>
  const createPointFromCoordinates = (lat: number, lon: number) => {
    return { type: 'Point', coordinates: [parseFloat(lon), parseFloat(lat)] };
  };
  \<close>
\<close>

definition createPointFromCoordinates :: "externals \<Rightarrow> jsval \<Rightarrow> jsval \<Rightarrow> jsval" where
  "createPointFromCoordinates X lat lon =
     VObj [(''type'', VStr ''Point''),
           (''coordinates'', VArr [VNum (parseFloat X lon), VNum (parseFloat X lat)])]"

definition geometryColumns :: "string list" where
  "geometryColumns = [''geometry'', ''geom'', ''the_geom'', ''wkb_geometry'']"

text \<open>\<^verbatim>\<open>parquetData.schema?.fields.some(f => f.name === colName)\<close>\<close>

definition hasField :: "schema option \<Rightarrow> string \<Rightarrow> bool" where
  "hasField sch colName =
     (case sch of None \<Rightarrow> False | Some s \<Rightarrow> list_ex (\<lambda>f. name f = colName) (schema.fields s))"

text \<open>
  Lines 124 to 136: the first candidate name, in the order of \<open>geometryColumns\<close>, that the
  schema has; \<open>None\<close> (the initial \<^verbatim>\<open>null\<close>) when there is no schema or no candidate
  matches.
  \<^verbatim>\<open>
  if (parquetData.schema) {
    for (const colName of geometryColumns) {
      if (parquetData.schema.fields.some(f => f.name === colName)) {
        geometryColumn = colName;
        break;
      }
    }
  }
  \<close>
\<close>

definition findGeometryColumn :: "schema option \<Rightarrow> string option" where
  "findGeometryColumn sch =
     (case sch of
        None \<Rightarrow> None
      | Some s \<Rightarrow> List.find (\<lambda>colName. hasField (Some s) colName) geometryColumns)"

text \<open>\<^verbatim>\<open>/^[0-9a-fA-F]+$/.test(rawGeometry)\<close>\<close>

definition isHexDigit :: "char \<Rightarrow> bool" where
  "isHexDigit c = (c \<in> set ''0123456789abcdefABCDEF'')"

definition looksLikeHex :: "string \<Rightarrow> bool" where
  "looksLikeHex s = (s \<noteq> [] \<and> list_all isHexDigit s)"

text \<open>
  Case 1 (lines 171 to 177), starting from \<^verbatim>\<open>geometry = null\<close>:
  \<^verbatim>\<open>
  if (rawGeometry instanceof Uint8Array || ArrayBuffer.isView(rawGeometry)) {
    try { geometry = wkbToGeojson(rawGeometry); } catch (err) { ... }
  }
  \<close>
\<close>

definition case1 :: "externals \<Rightarrow> jsval \<Rightarrow> jsval" where
  "case1 X rawGeometry =
     (case rawGeometry of
        VBytes bs \<Rightarrow> (case wkbToGeojson X bs of Some g \<Rightarrow> g | None \<Rightarrow> VNull)
      | _ \<Rightarrow> VNull)"

text \<open>
  Case 2 (lines 180 to 192):
  \<^verbatim>\<open>
  if (!geometry && typeof rawGeometry === 'string') {
    if (!/^[0-9a-fA-F]+$/.test(rawGeometry)) {
      try {
        const parsed = JSON.parse(rawGeometry);
        if (parsed && parsed.type && parsed.coordinates) { geometry = parsed; }
      } catch (err) { }
    }
  }
  \<close>
\<close>

definition case2 :: "externals \<Rightarrow> jsval \<Rightarrow> jsval \<Rightarrow> jsval" where
  "case2 X rawGeometry g =
     (case rawGeometry of
        VStr s \<Rightarrow>
          if \<not> truthy g \<and> \<not> looksLikeHex s
          then (case JSON_parse X s of
                  Some parsed \<Rightarrow>
                    if truthy parsed \<and> truthy (getProp parsed ''type'')
                       \<and> truthy (getProp parsed ''coordinates'')
                    then parsed else g
                | None \<Rightarrow> g)
          else g
      | _ \<Rightarrow> g)"

text \<open>
  Case 3 (lines 195 to 197):
  \<^verbatim>\<open>
  if (!geometry && rawGeometry.type && rawGeometry.coordinates) { geometry = rawGeometry; }
  \<close>
\<close>

definition case3 :: "jsval \<Rightarrow> jsval \<Rightarrow> jsval" where
  "case3 rawGeometry g =
     (if \<not> truthy g \<and> truthy (getProp rawGeometry ''type'')
         \<and> truthy (getProp rawGeometry ''coordinates'')
      then rawGeometry else g)"

text \<open>The value of \<^verbatim>\<open>geometry\<close> after cases 1, 2 and 3.\<close>

definition cases123 :: "externals \<Rightarrow> jsval \<Rightarrow> jsval" where
  "cases123 X rawGeometry = case3 rawGeometry (case2 X rawGeometry (case1 X rawGeometry))"

text \<open>
  The fallback of lines 200 to 202:
  \<^verbatim>\<open>
  if (!geometry && row.latitude && row.longitude) {
    geometry = createPointFromCoordinates(row.latitude, row.longitude);
  }
  \<close>
\<close>

definition latLonFallback :: "externals \<Rightarrow> row \<Rightarrow> jsval \<Rightarrow> jsval" where
  "latLonFallback X r g =
     (if \<not> truthy g \<and> truthy (getField r ''latitude'')
         \<and> truthy (getField r ''longitude'')
      then createPointFromCoordinates X (getField r ''latitude'') (getField r ''longitude'')
      else g)"

text \<open>
  One iteration of the loop over the rows when a geometry column was found (lines 161 to
  214): \<open>None\<close> when the row pushes no feature. None of the steps can throw, so the outer
  \<^verbatim>\<open>try\<close> never catches. The properties are \<^verbatim>\<open>{...row, [geometryColumn]: undefined}\<close>: the
  row's own properties in order, with the geometry column set to \<^verbatim>\<open>undefined\<close>.
\<close>

definition processRow :: "externals \<Rightarrow> string \<Rightarrow> row \<Rightarrow> feature option" where
  "processRow X geometryColumn r =
     (let rawGeometry = getField r geometryColumn in
      if \<not> truthy rawGeometry then None
      else
        let g = latLonFallback X r (cases123 X rawGeometry) in
        if truthy g
        then Some \<lparr>geometry = g,
                   properties = AList.update geometryColumn VUndefined r\<rparr>
        else None)"

text \<open>
  One iteration of the loop of the latitude/longitude case (lines 144 to 152):
  \<^verbatim>\<open>
  if (row.latitude && row.longitude) {
    features.push({ type: 'Feature',
      geometry: createPointFromCoordinates(row.latitude, row.longitude),
      properties: row });
  }
  \<close>
\<close>

definition latLonRow :: "externals \<Rightarrow> row \<Rightarrow> feature option" where
  "latLonRow X r =
     (if truthy (getField r ''latitude'') \<and> truthy (getField r ''longitude'')
      then Some \<lparr>geometry = createPointFromCoordinates X (getField r ''latitude'')
                                (getField r ''longitude''),
                 properties = r\<rparr>
      else None)"

text \<open>
  Lines 122 to 219 of \<^verbatim>\<open>processParquetData\<close>: the feature list, or the error thrown.
\<close>

definition collectFeatures :: "externals \<Rightarrow> parquetData \<Rightarrow> error + feature list" where
  "collectFeatures X parquetData =
     (case findGeometryColumn (schemaOf parquetData) of
        None \<Rightarrow>
          if hasField (schemaOf parquetData) ''latitude''
             \<and> hasField (schemaOf parquetData) ''longitude''
          then Inr (List.map_filter (latLonRow X) (rowsOf parquetData))
          else Inl NoGeometryError
      | Some geometryColumn \<Rightarrow>
          Inr (List.map_filter (processRow X geometryColumn) (rowsOf parquetData)))"

definition checkedFeatures :: "externals \<Rightarrow> parquetData \<Rightarrow> error + feature list" where
  "checkedFeatures X parquetData =
     (case collectFeatures X parquetData of
        Inl err \<Rightarrow> Inl err
      | Inr fs \<Rightarrow> if fs = [] then Inl EmptyResultError else Inr fs)"

section \<open>The load pipeline (ParquetLayer.tsx, loadData and processParquetData)\<close>

text \<open>
  The component's props: the URL, and whether the optional callbacks were supplied.
\<close>

record props =
  url :: string
  onLoad :: bool
  onError :: bool

text \<open>
  What one run of \<^verbatim>\<open>loadData\<close> does that is visible outside it, in order: the calls to
  the external collaborators, the state setters and the callbacks.
\<close>

datatype event =
    Fetch string
  | Load "byte list"
  | DecompressChunks "byte list list"
  | SetData featureCollection
  | OnLoad
  | SetError error
  | OnError error

text \<open>
  \<^verbatim>\<open>processParquetData\<close>: the error thrown, or the events published. There is no
  \<^verbatim>\<open>await\<close> between its first and its last statement, so both reads of \<^verbatim>\<open>isMounted\<close>
  see the same value.
  \<^verbatim>\<open>
  if (!isMounted) return;
  ...
  if (isMounted) { setData(geojson); if (onLoad) onLoad(); }
  \<close>
\<close>

definition processParquetData ::
  "externals \<Rightarrow> bool \<Rightarrow> props \<Rightarrow> parquetData \<Rightarrow> error + event list" where
  "processParquetData X isMounted p parquetData =
     (if \<not> isMounted then Inr []
      else
        case checkedFeatures X parquetData of
          Inl err \<Rightarrow> Inl err
        | Inr fs \<Rightarrow>
            Inr (if isMounted
                 then SetData (FeatureCollection fs) # (if onLoad p then [OnLoad] else [])
                 else []))"

text \<open>
  The object handed to the callback of \<^verbatim>\<open>ZstdCodec.run\<close>; the number tells one such object
  from another.
\<close>

datatype codec = Codec nat

text \<open>
  \<^verbatim>\<open>decompressData\<close>. The argument \<open>codec\<close> is what \<^verbatim>\<open>await preloadZstd()\<close> gave this
  caller: \<open>None\<close> is \<^verbatim>\<open>undefined\<close>, on which \<^verbatim>\<open>new codec.Streaming()\<close> raises a
  TypeError. The result is the call made to the codec, if any, and then the error thrown or
  the returned \<^verbatim>\<open>decompressResult.buffer\<close> (\<open>None\<close> for \<^verbatim>\<open>undefined\<close>).
\<close>

definition decompressData ::
  "externals \<Rightarrow> codec option \<Rightarrow> byte list \<Rightarrow> event list \<times> (error + byte list option)" where
  "decompressData X codec input =
     (case codec of
        None \<Rightarrow> ([], Inl (TypeError ''Cannot read properties of undefined (reading Streaming)''))
      | Some c \<Rightarrow>
          let chunks = chunksOf input in
          ([DecompressChunks chunks],
           case decompressChunks X chunks of
             DecompressThrows err \<Rightarrow> Inl err
           | DecompressNull \<Rightarrow> Inl (TypeError ''Cannot read properties of null (reading buffer)'')
           | DecompressNoBuffer \<Rightarrow> Inr None
           | DecompressArray out \<Rightarrow> Inr (Some out)))"

text \<open>
  The outer \<^verbatim>\<open>catch\<close> of \<^verbatim>\<open>loadData\<close> (lines 110 to 114). It does not read
  \<^verbatim>\<open>isMounted\<close>:
  \<^verbatim>\<open>
  } catch (err) {
    console.error('Error loading Parquet data:', err);
    setError(err as Error);
    if (onError) onError(err as Error);
  }
  \<close>
\<close>

definition catchError :: "props \<Rightarrow> error \<Rightarrow> event list" where
  "catchError p err = SetError err # (if onError p then [OnError err] else [])"

text \<open>
  Lines 93 to 109: decompress, load the decompressed bytes, process them. Every throw goes
  to the outer \<^verbatim>\<open>catch\<close>.
\<close>

definition loadDecompressed ::
  "externals \<Rightarrow> props \<Rightarrow> bool \<Rightarrow> codec option \<Rightarrow> byte list \<Rightarrow> event list" where
  "loadDecompressed X p isMounted codec arrayBuffer =
     (case decompressData X codec arrayBuffer of
        (calls, Inl err) \<Rightarrow> calls @ catchError p err
      | (calls, Inr None) \<Rightarrow> calls @ catchError p NoDataReturned
      | (calls, Inr (Some decompressedData)) \<Rightarrow>
          calls @ Load decompressedData #
          (case load X decompressedData of
             Inl err \<Rightarrow> catchError p err
           | Inr parquetData \<Rightarrow>
               (case processParquetData X isMounted p parquetData of
                  Inl err \<Rightarrow> catchError p err
                | Inr published \<Rightarrow> published)))"

text \<open>
  \<^verbatim>\<open>loadData\<close>. The flag \<^verbatim>\<open>isMounted\<close> can change at every \<^verbatim>\<open>await\<close>;
  \<open>mountedDirect\<close> is its value when the direct load resolves and \<open>mountedFallback\<close> its
  value when the load of the decompressed bytes resolves. The inner \<^verbatim>\<open>try\<close> (lines 79 to
  91) holds both the direct load and the call of \<^verbatim>\<open>processParquetData\<close>; its
  \<^verbatim>\<open>catch\<close> only logs, and control continues with the decompression:
  \<^verbatim>\<open>
  try {
    const parquetData = await load(arrayBuffer, ParquetLoader, {...});
    console.log('Successfully loaded without decompression');
    await processParquetData(parquetData);
    return;
  } catch (err) {
    console.log('Direct loading failed, trying with ZSTD:', err);
  }
  \<close>
\<close>

definition loadData ::
  "externals \<Rightarrow> props \<Rightarrow> bool \<Rightarrow> bool \<Rightarrow> codec option \<Rightarrow> event list" where
  "loadData X p mountedDirect mountedFallback codec =
     Fetch (url p) #
     (case fetch X (url p) of
        Inl err \<Rightarrow> catchError p err
      | Inr arrayBuffer \<Rightarrow>
          Load arrayBuffer #
          (case (case load X arrayBuffer of
                   Inl err \<Rightarrow> Inl err
                 | Inr parquetData \<Rightarrow> processParquetData X mountedDirect p parquetData) of
             Inr published \<Rightarrow> published
           | Inl err \<Rightarrow> loadDecompressed X p mountedFallback codec arrayBuffer))"

section \<open>The shared codec (ParquetLayer.tsx, preloadZstd)\<close>

text \<open>
  \<^verbatim>\<open>
  let zstdPromise: Promise<any>;
  let zstd: any;
  const preloadZstd = async () => {
    if (!zstdPromise) {
      zstdPromise = new Promise((resolve) => ZstdCodec.run((codec) => resolve(codec)));
      zstd = await zstdPromise;
    }
    return zstd;
  };
  \<close>
  JavaScript runs one task at a time and a task gives up control only at an \<^verbatim>\<open>await\<close>.
  So a call of \<^verbatim>\<open>preloadZstd\<close> runs without interruption up to its \<^verbatim>\<open>await\<close>, or up to
  its \<^verbatim>\<open>return\<close> when the test \<^verbatim>\<open>!zstdPromise\<close> fails, and the part after the
  \<^verbatim>\<open>await\<close> runs later, once the promise is fulfilled. The module variables are shared by
  all callers.
\<close>

datatype promise = Pending | Fulfilled codec

datatype caller = NotCalled | Awaiting | Returned "codec option"

record moduleState =
  zstdPromise :: "promise option"
  zstd :: "codec option"
  runs :: nat
  callers :: "nat \<Rightarrow> caller"

definition initialState :: moduleState where
  "initialState = \<lparr>zstdPromise = None, zstd = None, runs = 0, callers = (\<lambda>i. NotCalled)\<rparr>"

text \<open>
  The three things that can happen: caller \<open>i\<close> calls \<^verbatim>\<open>preloadZstd\<close>; the codec library
  calls back with the codec (\<^verbatim>\<open>resolve(codec)\<close>); caller \<open>i\<close>, suspended at the
  \<^verbatim>\<open>await\<close>, is resumed. \<open>runs\<close> counts the calls of \<^verbatim>\<open>ZstdCodec.run\<close>. A step that is
  not possible in a state leaves it unchanged.
\<close>

datatype step = Call nat | CodecReady codec | Resume nat

fun preloadZstd :: "step \<Rightarrow> moduleState \<Rightarrow> moduleState" where
  "preloadZstd (Call i) s =
     (if callers s i \<noteq> NotCalled then s
      else if zstdPromise s = None
      then s\<lparr>zstdPromise := Some Pending, runs := runs s + 1,
             callers := (callers s)(i := Awaiting)\<rparr>
      else s\<lparr>callers := (callers s)(i := Returned (zstd s))\<rparr>)"
| "preloadZstd (CodecReady c) s =
     (if zstdPromise s = Some Pending then s\<lparr>zstdPromise := Some (Fulfilled c)\<rparr> else s)"
| "preloadZstd (Resume i) s =
     (if callers s i \<noteq> Awaiting then s
      else case zstdPromise s of
             Some (Fulfilled c) \<Rightarrow>
               s\<lparr>zstd := Some c, callers := (callers s)(i := Returned (Some c))\<rparr>
           | _ \<Rightarrow> s)"

definition schedule :: "step list \<Rightarrow> moduleState" where
  "schedule steps = fold preloadZstd steps initialState"

section \<open>The variant that decodes every property (part_001, extractFeatures)\<close>

text \<open>
  \<^verbatim>\<open>
  const decodeUint8Array = (value: any): string => {
    if (value instanceof Uint8Array) { return new TextDecoder().decode(value); }
    return String(value);
  };
  \<close>
  \<^verbatim>\<open>new TextDecoder()\<close> is the UTF-8 decoder.
\<close>

definition decodeUint8Array :: "externals \<Rightarrow> jsval \<Rightarrow> string" where
  "decodeUint8Array X v =
     (case v of VBytes bs \<Rightarrow> TextDecoder_decode X bs | _ \<Rightarrow> String_of X v)"

text \<open>
  The geometry of a row in this variant (lines 129 to 138): \<open>None\<close> when
  \<^verbatim>\<open>wkx.Geometry.parse\<close> throws. \<^verbatim>\<open>Buffer.from(s, 'binary')\<close> takes each character of the
  string as one byte.
\<close>

definition parseGeometry :: "externals \<Rightarrow> row \<Rightarrow> jsval option" where
  "parseGeometry X r =
     (let raw = getField r ''geometry'' in
      if truthy raw
      then (case raw of
              VBytes bs \<Rightarrow> wkx_parse X bs
            | VStr s \<Rightarrow> wkx_parse X (map of_char s)
            | _ \<Rightarrow> Some VNull)
      else Some VNull)"

text \<open>
  The function mapped over the rows (lines 126 to 161): \<open>None\<close> for the \<^verbatim>\<open>null\<close> that
  \<^verbatim>\<open>.filter(Boolean)\<close> removes.
  \<^verbatim>\<open>
  const properties = Object.fromEntries(
    Object.entries(row)
      .filter(([key]) => key !== 'geometry')
      .map(([key, value]) => [key, decodeUint8Array(value)]));
  \<close>
\<close>

definition extractFeature :: "externals \<Rightarrow> row \<Rightarrow> feature option" where
  "extractFeature X r =
     (case parseGeometry X r of
        None \<Rightarrow> None
      | Some g \<Rightarrow>
          if \<not> truthy g then None
          else Some \<lparr>geometry = g,
                     properties =
                       map (\<lambda>(key, v). (key, VStr (decodeUint8Array X v)))
                         (filter (\<lambda>(key, v). key \<noteq> ''geometry'') r)\<rparr>)"

definition extractFeatures :: "externals \<Rightarrow> row list \<Rightarrow> feature list" where
  "extractFeatures X rs = List.map_filter (extractFeature X) rs"

section \<open>Example collaborators and inputs\<close>

text \<open>
  Stand-ins for the libraries, defined on the few arguments the examples below use, and
  some rows and tables. \<open>wkbPoint\<close> is the well-known binary of \<^verbatim>\<open>POINT(1 2)\<close>,
  little-endian.
\<close>

definition wkbPoint :: "byte list" where
  "wkbPoint = [1, 1, 0, 0, 0, 0, 0, 0, 0, 0, 0, 240, 63, 0, 0, 0, 0, 0, 0, 0, 64]"

definition point12 :: jsval where
  "point12 = VObj [(''type'', VStr ''Point''),
                   (''coordinates'', VArr [VNum (Finite 1), VNum (Finite 2)])]"

definition plainFile :: "byte list" where
  "plainFile = [80, 65, 82, 49]"

definition plainTable :: parquetData where
  "plainTable =
     Table (Some (Schema [Field ''id'', Field ''name'']))
       [[(''id'', VNum (Finite 1)), (''name'', VStr ''a'')]]"

definition nullGeometryTable :: parquetData where
  "nullGeometryTable =
     Table (Some (Schema [Field ''id'', Field ''geometry'']))
       [[(''id'', VNum (Finite 1)), (''geometry'', VNull)]]"

definition demo :: externals where
  "demo = \<lparr>
     wkbToGeojson = (\<lambda>bs. if bs = wkbPoint then Some point12 else None),
     JSON_parse = (\<lambda>s. if s = ''12'' then Some (VNum (Finite 12)) else None),
     parseFloat = (\<lambda>v. case v of
                        VNum n \<Rightarrow> n
                      | VStr s \<Rightarrow> if s = ''40.7'' then Finite (407 / 10)
                                  else if s = ''-74.0'' then Finite (- 74) else NaN
                      | _ \<Rightarrow> NaN),
     fetch = (\<lambda>u. if u = ''plain.parquet'' then Inr plainFile
                  else Inl (External ''Failed to fetch'')),
     load = (\<lambda>b. if b = plainFile then Inr plainTable
                 else Inl (External ''Invalid Parquet file'')),
     decompressChunks = (\<lambda>chunks. DecompressThrows (External ''Not a ZSTD frame'')),
     wkx_parse = (\<lambda>bs. if bs = wkbPoint then Some point12 else None),
     TextDecoder_decode = (\<lambda>bs. if bs = [72, 105] then ''Hi'' else ''?''),
     String_of = (\<lambda>v. case v of VStr s \<Rightarrow> s | _ \<Rightarrow> ''[object]'')\<rparr>"

text \<open>
  The same collaborators, except that the direct load yields a table whose only row has a
  \<^verbatim>\<open>null\<close> geometry and that the codec returns bytes which the loader rejects.
\<close>

definition demoRetry :: externals where
  "demoRetry = demo\<lparr>
     load := (\<lambda>b. if b = plainFile then Inr nullGeometryTable
                  else Inl (External ''Invalid Parquet file'')),
     decompressChunks := (\<lambda>chunks. DecompressArray [0])\<rparr>"

definition demoProps :: props where
  "demoProps = \<lparr>url = ''plain.parquet'', onLoad = True, onError = True\<rparr>"

section \<open>Properties of the chunk sequence\<close>

lemma CHUNK_SIZE_pos: "0 < CHUNK_SIZE"
  by (simp add: CHUNK_SIZE_def)

lemma chunksFrom_nonempty: "i \<le> length xs \<Longrightarrow> chunksFrom i xs \<noteq> []"
  by (subst chunksFrom.simps) simp

lemma chunksFrom_past_end: "length xs < i \<Longrightarrow> chunksFrom i xs = []"
  by (subst chunksFrom.simps) simp

lemma concat_chunksFrom: "i \<le> length xs \<Longrightarrow> concat (chunksFrom i xs) = drop i xs"
proof (induction i xs rule: chunksFrom.induct)
  case (1 i xs)
  show ?case
  proof (cases "i + CHUNK_SIZE \<le> length xs")
    case True
    with 1 have "concat (chunksFrom (i + CHUNK_SIZE) xs) = drop (i + CHUNK_SIZE) xs"
      by simp
    moreover have "take CHUNK_SIZE (drop i xs) @ drop (i + CHUNK_SIZE) xs = drop i xs"
      by (metis add.commute append_take_drop_id drop_drop)
    ultimately show ?thesis
      using "1.prems" by (subst chunksFrom.simps) (simp add: subarray_def)
  next
    case False
    then have "chunksFrom (i + CHUNK_SIZE) xs = []"
      by (simp add: chunksFrom_past_end)
    moreover from False have "take CHUNK_SIZE (drop i xs) = drop i xs"
      by simp
    ultimately show ?thesis
      using "1.prems" by (subst chunksFrom.simps) (simp add: subarray_def)
  qed
qed

lemma length_chunksFrom: "c \<in> set (chunksFrom i xs) \<Longrightarrow> length c \<le> CHUNK_SIZE"
proof (induction i xs rule: chunksFrom.induct)
  case (1 i xs)
  from "1.prems" have le: "i \<le> length xs"
    by (subst (asm) chunksFrom.simps) (simp split: if_splits)
  with "1.prems" have "c = subarray xs i (i + CHUNK_SIZE) \<or> c \<in> set (chunksFrom (i + CHUNK_SIZE) xs)"
    by (subst (asm) chunksFrom.simps) simp
  then show ?case
  proof
    assume "c = subarray xs i (i + CHUNK_SIZE)"
    then show ?thesis by (simp add: subarray_def)
  next
    assume "c \<in> set (chunksFrom (i + CHUNK_SIZE) xs)"
    with 1 le show ?thesis by simp
  qed
qed

lemma last_chunksFrom:
  "i \<le> length xs \<Longrightarrow> (length xs - i) mod CHUNK_SIZE = 0 \<Longrightarrow> last (chunksFrom i xs) = []"
proof (induction i xs rule: chunksFrom.induct)
  case (1 i xs)
  show ?case
  proof (cases "i + CHUNK_SIZE \<le> length xs")
    case True
    have "(length xs - (i + CHUNK_SIZE)) mod CHUNK_SIZE = 0"
    proof -
      from True have "length xs - i = (length xs - (i + CHUNK_SIZE)) + CHUNK_SIZE"
        by simp
      with "1.prems"(2) show ?thesis
        by (metis mod_add_self2)
    qed
    with 1 True have "last (chunksFrom (i + CHUNK_SIZE) xs) = []"
      by simp
    moreover from True have "chunksFrom (i + CHUNK_SIZE) xs \<noteq> []"
      by (rule chunksFrom_nonempty)
    ultimately show ?thesis
      using "1.prems"(1) by (subst chunksFrom.simps) simp
  next
    case False
    then have rest: "chunksFrom (i + CHUNK_SIZE) xs = []"
      by (simp add: chunksFrom_past_end)
    from False have "length xs - i < CHUNK_SIZE"
      using CHUNK_SIZE_pos by arith
    with "1.prems"(2) have "length xs - i = 0"
      by simp
    then have "subarray xs i (i + CHUNK_SIZE) = []"
      by (simp add: subarray_def)
    with rest show ?thesis
      using "1.prems"(1) by (subst chunksFrom.simps) simp
  qed
qed

lemma chunksFrom_step:
  "i \<le> length xs \<Longrightarrow>
     chunksFrom i xs = take CHUNK_SIZE (drop i xs) # chunksFrom (i + CHUNK_SIZE) xs"
  by (subst chunksFrom.simps) (simp add: subarray_def)

lemma chunksOf_two_million:
  "chunksOf (replicate 2000000 (0 :: byte))
     = [replicate 1000000 0, replicate 1000000 0, []]"
  by (simp add: chunksOf_def chunksFrom_step [of 0] chunksFrom_step [of 1000000]
      chunksFrom_step [of 2000000] chunksFrom_past_end CHUNK_SIZE_def)

lemma chunksOf_one_more:
  "chunksOf (replicate 1000001 (0 :: byte)) = [replicate 1000000 0, [0]]"
  by (simp add: chunksOf_def chunksFrom_step [of 0] chunksFrom_step [of 1000000]
      chunksFrom_past_end CHUNK_SIZE_def)

text \<open>
  C10. For every input buffer, the empty one included, \<^verbatim>\<open>decompressData\<close> makes one call
  of \<^verbatim>\<open>decompressChunks\<close>, and the chunk sequence it passes is the one built by the loop:
  it is non-empty, its concatenation is the input, every chunk has at most 1,000,000
  bytes, and when the input length is a multiple of 1,000,000 (zero included) the
  sequence ends with an empty chunk. The outcome of \<^verbatim>\<open>decompressData\<close> is what the codec
  does on that sequence.
\<close>

theorem chunks_cover_input:
  "fst (decompressData X (Some c) input) = [DecompressChunks (chunksOf input)]
   \<and> snd (decompressData X (Some c) input)
       = (case decompressChunks X (chunksOf input) of
            DecompressThrows err \<Rightarrow> Inl err
          | DecompressNull \<Rightarrow> Inl (TypeError ''Cannot read properties of null (reading buffer)'')
          | DecompressNoBuffer \<Rightarrow> Inr None
          | DecompressArray out \<Rightarrow> Inr (Some out))
   \<and> chunksOf input \<noteq> []
   \<and> concat (chunksOf input) = input
   \<and> (\<forall>chunk \<in> set (chunksOf input). length chunk \<le> 1000000)
   \<and> (length input mod 1000000 = 0 \<longrightarrow> last (chunksOf input) = [])"
proof -
  have "fst (decompressData X (Some c) input) = [DecompressChunks (chunksOf input)]"
    by (simp add: decompressData_def Let_def)
  moreover have "snd (decompressData X (Some c) input)
       = (case decompressChunks X (chunksOf input) of
            DecompressThrows err \<Rightarrow> Inl err
          | DecompressNull \<Rightarrow> Inl (TypeError ''Cannot read properties of null (reading buffer)'')
          | DecompressNoBuffer \<Rightarrow> Inr None
          | DecompressArray out \<Rightarrow> Inr (Some out))"
    by (simp add: decompressData_def Let_def)
  moreover have "chunksOf input \<noteq> []"
    by (simp add: chunksOf_def chunksFrom_nonempty)
  moreover have "concat (chunksOf input) = input"
    by (simp add: chunksOf_def concat_chunksFrom)
  moreover have "\<forall>chunk \<in> set (chunksOf input). length chunk \<le> 1000000"
    using length_chunksFrom [of _ 0 input] by (simp add: chunksOf_def CHUNK_SIZE_def)
  moreover have "length input mod 1000000 = 0 \<longrightarrow> last (chunksOf input) = []"
    using last_chunksFrom [of 0 input] by (simp add: chunksOf_def CHUNK_SIZE_def)
  ultimately show ?thesis by blast
qed

theorem chunks_cover_input_witness:
  "length (replicate 2000000 (0 :: byte)) mod 1000000 = 0
   \<and> fst (decompressData demo (Some (Codec 0)) (replicate 2000000 0))
       = [DecompressChunks [replicate 1000000 0, replicate 1000000 0, []]]
   \<and> snd (decompressData demo (Some (Codec 0)) (replicate 2000000 0))
       = Inl (External ''Not a ZSTD frame'')
   \<and> concat [replicate 1000000 (0 :: byte), replicate 1000000 0, []] = replicate 2000000 0
   \<and> last [replicate 1000000 (0 :: byte), replicate 1000000 0, []] = []
   \<and> fst (decompressData demo (Some (Codec 0)) (replicate 1000001 0))
       = [DecompressChunks [replicate 1000000 0, [0]]]
   \<and> concat [replicate 1000000 (0 :: byte), [0]] = replicate 1000001 0
   \<and> length ([] :: byte list) mod 1000000 = 0
   \<and> fst (decompressData demo (Some (Codec 0)) []) = [DecompressChunks [[]]]
   \<and> fst (decompressData demo (Some (Codec 0)) [1, 2, 3]) = [DecompressChunks [[1, 2, 3]]]"
proof -
  have e: "chunksOf ([] :: byte list) = [[]]"
    by (simp add: chunksOf_def chunksFrom_step [of 0] chunksFrom_past_end CHUNK_SIZE_def)
  have t: "chunksOf [1, 2, 3 :: byte] = [[1, 2, 3]]"
    by (simp add: chunksOf_def chunksFrom_step [of 0] chunksFrom_past_end CHUNK_SIZE_def)
  have d: "decompressChunks demo [replicate 1000000 0, replicate 1000000 0, []]
             = DecompressThrows (External ''Not a ZSTD frame'')"
    by (simp add: demo_def)
  note big = chunks_cover_input [of demo "Codec 0" "replicate 2000000 0",
      unfolded chunksOf_two_million]
  note odd = chunks_cover_input [of demo "Codec 0" "replicate 1000001 0",
      unfolded chunksOf_one_more]
  note empty = chunks_cover_input [of demo "Codec 0" "[]", unfolded e]
  note small = chunks_cover_input [of demo "Codec 0" "[1, 2, 3]", unfolded t]
  have "length (replicate 2000000 (0 :: byte)) mod 1000000 = 0"
    by simp
  moreover from big have "fst (decompressData demo (Some (Codec 0)) (replicate 2000000 0))
       = [DecompressChunks [replicate 1000000 0, replicate 1000000 0, []]]"
    by (rule conjunct1)
  moreover from big d have "snd (decompressData demo (Some (Codec 0)) (replicate 2000000 0))
       = Inl (External ''Not a ZSTD frame'')"
    by (simp only: decompressResult.case)
  moreover from big
  have "concat [replicate 1000000 (0 :: byte), replicate 1000000 0, []] = replicate 2000000 0"
    by blast
  moreover have "last [replicate 1000000 (0 :: byte), replicate 1000000 0, []] = []"
    by simp
  moreover from odd have "fst (decompressData demo (Some (Codec 0)) (replicate 1000001 0))
       = [DecompressChunks [replicate 1000000 0, [0]]]"
    by (rule conjunct1)
  moreover from odd
  have "concat [replicate 1000000 (0 :: byte), [0]] = replicate 1000001 0"
    by blast
  moreover have "length ([] :: byte list) mod 1000000 = 0"
    by simp
  moreover from empty have "fst (decompressData demo (Some (Codec 0)) []) = [DecompressChunks [[]]]"
    by (rule conjunct1)
  moreover from small
  have "fst (decompressData demo (Some (Codec 0)) [1, 2, 3]) = [DecompressChunks [[1, 2, 3]]]"
    by (rule conjunct1)
  ultimately show ?thesis
    by (intro conjI)
qed

section \<open>Geometry column discovery\<close>

lemma findGeometryColumn_no_schema: "findGeometryColumn None = None"
  by (simp add: findGeometryColumn_def)

lemma hasField_no_schema: "\<not> hasField None colName"
  by (simp add: hasField_def)

text \<open>
  C1, as the code has it. When the decoded result carries no schema, the rows are not
  looked at: \<^verbatim>\<open>processParquetData\<close> (while mounted) fails with the error "No geometry
  column or lat/lon columns found in Parquet data", whatever the rows contain.
\<close>

theorem no_schema_is_no_geometry:
  "schemaOf parquetData = None \<Longrightarrow>
     collectFeatures X parquetData = Inl NoGeometryError
     \<and> processParquetData X True p parquetData = Inl NoGeometryError"
  by (simp add: processParquetData_def checkedFeatures_def collectFeatures_def
      findGeometryColumn_no_schema hasField_no_schema)

theorem no_schema_is_no_geometry_witness:
  "schemaOf (Table None [[(''geom'', VBytes wkbPoint)]]) = None
   \<and> collectFeatures demo (Table None [[(''geom'', VBytes wkbPoint)]]) = Inl NoGeometryError
   \<and> processParquetData demo True demoProps (Table None [[(''geom'', VBytes wkbPoint)]])
       = Inl NoGeometryError"
  using no_schema_is_no_geometry [of "Table None [[(''geom'', VBytes wkbPoint)]]" demo demoProps]
  by simp

text \<open>
  The claim as stated fails: a bare row array has no schema, its first row has the keys
  \<^verbatim>\<open>geometry\<close>, \<^verbatim>\<open>latitude\<close> and \<^verbatim>\<open>longitude\<close>, and the result is still the error.
\<close>

theorem first_row_keys_not_inspected:
  "schemaOf (RowArray [[(''geometry'', point12), (''latitude'', VStr ''40.7''),
                         (''longitude'', VStr ''-74.0'')]]) = None
   \<and> map fst [(''geometry'', point12), (''latitude'', VStr ''40.7''),
               (''longitude'', VStr ''-74.0'')] = [''geometry'', ''latitude'', ''longitude'']
   \<and> processParquetData demo True demoProps
         (RowArray [[(''geometry'', point12), (''latitude'', VStr ''40.7''),
                     (''longitude'', VStr ''-74.0'')]]) = Inl NoGeometryError"
  by (simp add: processParquetData_def checkedFeatures_def collectFeatures_def
      findGeometryColumn_def hasField_def)

section \<open>Properties of an emitted feature\<close>



lemma processRow_Some:
  "processRow X col r = Some f \<Longrightarrow>
     truthy (getField r col)
     \<and> geometry f = latLonFallback X r (cases123 X (getField r col))
     \<and> truthy (geometry f)
     \<and> properties f = AList.update col VUndefined r"
  by (auto simp: processRow_def Let_def split: if_splits)

lemma latLonRow_Some:
  "latLonRow X r = Some f \<Longrightarrow>
     truthy (getField r ''latitude'') \<and> truthy (getField r ''longitude'')
     \<and> geometry f = createPointFromCoordinates X (getField r ''latitude'') (getField r ''longitude'')
     \<and> properties f = r"
  by (auto simp: latLonRow_def split: if_splits)





section \<open>The fallback chain of one row\<close>

text \<open>The test \<^verbatim>\<open>x.type && x.coordinates\<close> that cases 2 and 3 apply.\<close>

lemma createPoint_tagged:
  "truthy (getProp (createPointFromCoordinates X lat lon) ''type'')
   \<and> truthy (getProp (createPointFromCoordinates X lat lon) ''coordinates'')"
  by (simp add: createPointFromCoordinates_def getField_def)

lemma case1_text: "case1 X (VStr s) = VNull"
  by (simp add: case1_def)

lemma case2_hex: "looksLikeHex s \<Longrightarrow> case2 X (VStr s) g = g"
  by (simp add: case2_def)

lemma case3_text: "case3 (VStr s) g = g"
  by (simp add: case3_def)

lemma cases123_hex: "looksLikeHex s \<Longrightarrow> cases123 X (VStr s) = VNull"
  by (simp add: cases123_def case1_text case2_hex case3_text)

text \<open>
  C9. When the raw geometry of a row is a string of hexadecimal digits only, the JSON
  parser is not consulted: the outcome for the row is the same whatever the parser would
  do. If the row moreover lacks a truthy latitude or longitude, no geometry is found and
  the row is dropped: the result is the absence of a feature, not an exception.
\<close>

theorem hex_text_skips_json:
  "getField r col = VStr s \<Longrightarrow> looksLikeHex s \<Longrightarrow>
     case2 X (VStr s) g = g
     \<and> processRow (X\<lparr>JSON_parse := parser\<rparr>) col r = processRow X col r
     \<and> (\<not> (truthy (getField r ''latitude'') \<and> truthy (getField r ''longitude'')) \<longrightarrow>
          processRow X col r = None)"
proof -
  assume raw: "getField r col = VStr s" and hex: "looksLikeHex s"
  have "cases123 (X\<lparr>JSON_parse := parser\<rparr>) (VStr s) = cases123 X (VStr s)"
    using hex by (simp add: cases123_hex)
  then have "processRow (X\<lparr>JSON_parse := parser\<rparr>) col r = processRow X col r"
    using raw by (simp add: processRow_def latLonFallback_def createPointFromCoordinates_def)
  moreover have "processRow X col r = None"
    if "\<not> (truthy (getField r ''latitude'') \<and> truthy (getField r ''longitude''))"
    using that raw hex by (auto simp: processRow_def latLonFallback_def cases123_hex)
  ultimately show ?thesis
    using hex by (simp add: case2_hex)
qed

theorem hex_text_skips_json_witness:
  "getField [(''id'', VNum (Finite 1)), (''geometry'', VStr ''0101000020E6'')] ''geometry''
     = VStr ''0101000020E6''
   \<and> looksLikeHex ''0101000020E6''
   \<and> \<not> (truthy (getField [(''id'', VNum (Finite 1)), (''geometry'', VStr ''0101000020E6'')]
                    ''latitude'')
         \<and> truthy (getField [(''id'', VNum (Finite 1)), (''geometry'', VStr ''0101000020E6'')]
                      ''longitude''))
   \<and> processRow demo ''geometry''
         [(''id'', VNum (Finite 1)), (''geometry'', VStr ''0101000020E6'')] = None
   \<and> processRow (demo\<lparr>JSON_parse := (\<lambda>s. Some point12)\<rparr>) ''geometry''
         [(''id'', VNum (Finite 1)), (''geometry'', VStr ''0101000020E6'')] = None"
proof -
  have raw: "getField [(''id'', VNum (Finite 1)), (''geometry'', VStr ''0101000020E6'')]
               ''geometry'' = VStr ''0101000020E6''"
    by (simp add: getField_def)
  have hex: "looksLikeHex ''0101000020E6''"
    by (simp add: looksLikeHex_def isHexDigit_def)
  have nolatlon:
    "\<not> (truthy (getField [(''id'', VNum (Finite 1)), (''geometry'', VStr ''0101000020E6'')]
                  ''latitude'')
        \<and> truthy (getField [(''id'', VNum (Finite 1)), (''geometry'', VStr ''0101000020E6'')]
                    ''longitude''))"
    by (simp add: getField_def)
  show ?thesis
    using hex_text_skips_json [OF raw hex, of demo VNull "\<lambda>s. Some point12"] raw hex nolatlon
    by (simp only: simp_thms)
qed







section \<open>The geometry of an emitted feature\<close>

lemma case1_result:
  "truthy (case1 X raw) \<Longrightarrow> \<exists>bs. raw = VBytes bs \<and> wkbToGeojson X bs = Some (case1 X raw)"
  by (auto simp: case1_def split: jsval.splits option.splits)

lemma case2_result:
  "case2 X raw g = g
   \<or> (truthy (getProp (case2 X raw g) ''type'') \<and> truthy (getProp (case2 X raw g) ''coordinates''))"
  by (auto simp: case2_def split: jsval.splits option.splits)

lemma case3_result:
  "case3 raw g = g
   \<or> (truthy (getProp (case3 raw g) ''type'') \<and> truthy (getProp (case3 raw g) ''coordinates''))"
  by (auto simp: case3_def)

lemma cases123_result:
  assumes "truthy (cases123 X raw)"
  shows "(truthy (getProp (cases123 X raw) ''type'')
          \<and> truthy (getProp (cases123 X raw) ''coordinates''))
         \<or> (\<exists>bs. wkbToGeojson X bs = Some (cases123 X raw))"
proof (cases "cases123 X raw = case1 X raw")
  case True
  with assms case1_result [of X raw] show ?thesis by auto
next
  case False
  show ?thesis
  proof (cases "cases123 X raw = case2 X raw (case1 X raw)")
    case True
    with False case2_result [of X raw "case1 X raw"] show ?thesis by auto
  next
    case False
    with case3_result [of raw "case2 X raw (case1 X raw)"] show ?thesis
      by (auto simp: cases123_def)
  qed
qed

lemma processRow_geometry:
  assumes "processRow X col r = Some f"
  shows "truthy (geometry f)
         \<and> ((truthy (getProp (geometry f) ''type'') \<and> truthy (getProp (geometry f) ''coordinates''))
            \<or> (\<exists>bs. wkbToGeojson X bs = Some (geometry f)))"
proof -
  have g: "geometry f = latLonFallback X r (cases123 X (getField r col))"
    using processRow_Some [OF assms] by blast
  have t: "truthy (geometry f)"
    using processRow_Some [OF assms] by blast
  show ?thesis
  proof (cases "geometry f = cases123 X (getField r col)")
    case True
    with t have "truthy (cases123 X (getField r col))" by simp
    from cases123_result [OF this] True t show ?thesis by simp
  next
    case False
    with g have "geometry f = createPointFromCoordinates X (getField r ''latitude'')
                                (getField r ''longitude'')"
      by (simp add: latLonFallback_def split: if_splits)
    with t createPoint_tagged [of X "getField r ''latitude''" "getField r ''longitude''"]
    show ?thesis by simp
  qed
qed

lemma latLonRow_geometry:
  assumes "latLonRow X r = Some f"
  shows "truthy (geometry f)
         \<and> truthy (getProp (geometry f) ''type'') \<and> truthy (getProp (geometry f) ''coordinates'')"
  using latLonRow_Some [OF assms] createPoint_tagged [of X]
  by (simp add: createPointFromCoordinates_def)

lemma map_filter_member:
  "y \<in> set (List.map_filter g xs) \<Longrightarrow> \<exists>x. x \<in> set xs \<and> g x = Some y"
  by (induction xs) (auto split: option.splits)

lemma collectFeatures_member:
  assumes "collectFeatures X parquetData = Inr fs" and "f \<in> set fs"
  shows "(\<exists>col r. r \<in> set (rowsOf parquetData) \<and> processRow X col r = Some f)
         \<or> (\<exists>r. r \<in> set (rowsOf parquetData) \<and> latLonRow X r = Some f)"
proof (cases "findGeometryColumn (schemaOf parquetData)")
  case None
  with assms have "f \<in> set (List.map_filter (latLonRow X) (rowsOf parquetData))"
    by (auto simp: collectFeatures_def split: if_splits)
  from map_filter_member [OF this] show ?thesis by blast
next
  case (Some col)
  with assms have "f \<in> set (List.map_filter (processRow X col) (rowsOf parquetData))"
    by (auto simp: collectFeatures_def)
  from map_filter_member [OF this] show ?thesis by blast
qed

text \<open>
  C6, as the code has it. Every Feature of the output has a truthy geometry, hence not
  \<^verbatim>\<open>null\<close>. That geometry either has a truthy \<^verbatim>\<open>type\<close> and truthy \<^verbatim>\<open>coordinates\<close>, or is what
  \<^verbatim>\<open>wkbToGeojson\<close> returned, taken as it is. The coordinates are tested for truthiness
  only, and an empty array is truthy. A row for which the fallback chain finds nothing
  truthy yields no Feature.
\<close>

theorem feature_geometry_truthy:
  "(collectFeatures X parquetData = Inr fs \<and> f \<in> set fs \<longrightarrow>
      truthy (geometry f)
      \<and> ((truthy (getProp (geometry f) ''type'')
           \<and> truthy (getProp (geometry f) ''coordinates''))
          \<or> (\<exists>bs. wkbToGeojson X bs = Some (geometry f))))
   \<and> (\<not> truthy (latLonFallback X r (cases123 X (getField r col))) \<longrightarrow>
        processRow X col r = None)"
proof -
  have "truthy (geometry f)
      \<and> ((truthy (getProp (geometry f) ''type'')
           \<and> truthy (getProp (geometry f) ''coordinates''))
          \<or> (\<exists>bs. wkbToGeojson X bs = Some (geometry f)))"
    if "collectFeatures X parquetData = Inr fs" and "f \<in> set fs"
    using collectFeatures_member [OF that] processRow_geometry [of X _ _ f]
      latLonRow_geometry [of X _ f]
    by blast
  moreover have "processRow X col r = None"
    if "\<not> truthy (latLonFallback X r (cases123 X (getField r col)))"
    using that by (simp add: processRow_def Let_def)
  ultimately show ?thesis by blast
qed

theorem feature_geometry_truthy_witness:
  "collectFeatures demo
     (Table (Some (Schema [Field ''geom'']))
        [[(''geom'', VBytes wkbPoint)], [(''geom'', VNull)]])
     = Inr [\<lparr>geometry = point12, properties = [(''geom'', VUndefined)]\<rparr>]
   \<and> truthy point12
   \<and> truthy (getProp point12 ''type'')
   \<and> truthy (getProp point12 ''coordinates'')
   \<and> \<not> truthy (latLonFallback demo [(''geom'', VStr ''zz'')]
                  (cases123 demo (getField [(''geom'', VStr ''zz'')] ''geom'')))
   \<and> processRow demo ''geom'' [(''geom'', VStr ''zz'')] = None"
proof -
  have fs: "collectFeatures demo
     (Table (Some (Schema [Field ''geom'']))
        [[(''geom'', VBytes wkbPoint)], [(''geom'', VNull)]])
     = Inr [\<lparr>geometry = point12, properties = [(''geom'', VUndefined)]\<rparr>]"
    by (simp add: collectFeatures_def findGeometryColumn_def hasField_def geometryColumns_def
        processRow_def getField_def List.map_filter_def demo_def point12_def cases123_def
        case1_def case2_def case3_def latLonFallback_def)
  have tagged: "truthy (getProp point12 ''type'') \<and> truthy (getProp point12 ''coordinates'')"
    by (simp add: point12_def getField_def)
  have none: "\<not> truthy (latLonFallback demo [(''geom'', VStr ''zz'')]
                  (cases123 demo (getField [(''geom'', VStr ''zz'')] ''geom'')))"
    by (simp add: latLonFallback_def cases123_def case1_def case2_def case3_def getField_def
        demo_def looksLikeHex_def isHexDigit_def)
  show ?thesis
    using feature_geometry_truthy [of demo
        "Table (Some (Schema [Field ''geom'']))
           [[(''geom'', VBytes wkbPoint)], [(''geom'', VNull)]]"
        "[\<lparr>geometry = point12, properties = [(''geom'', VUndefined)]\<rparr>]"
        "\<lparr>geometry = point12, properties = [(''geom'', VUndefined)]\<rparr>"
        "[(''geom'', VStr ''zz'')]" "''geom''"]
      fs tagged none
    by simp
qed

text \<open>
  The claim as stated fails: a row whose geometry is an object with a \<^verbatim>\<open>type\<close> and an empty
  \<^verbatim>\<open>coordinates\<close> array passes case 3, and the output holds a Feature with no coordinates.
\<close>

theorem empty_coordinates_emitted:
  "collectFeatures demo
     (Table (Some (Schema [Field ''geometry'']))
        [[(''geometry'', VObj [(''type'', VStr ''Point''), (''coordinates'', VArr [])])]])
     = Inr [\<lparr>geometry = VObj [(''type'', VStr ''Point''), (''coordinates'', VArr [])],
              properties = [(''geometry'', VUndefined)]\<rparr>]
   \<and> getProp (VObj [(''type'', VStr ''Point''), (''coordinates'', VArr [])]) ''coordinates''
       = VArr []"
  by (simp add: collectFeatures_def findGeometryColumn_def hasField_def geometryColumns_def
      processRow_def getField_def List.map_filter_def cases123_def case1_def case2_def
      case3_def latLonFallback_def)

section \<open>Runs of the load pipeline\<close>

lemma chunksOf_short: "length xs < CHUNK_SIZE \<Longrightarrow> chunksOf xs = [xs]"
  by (simp add: chunksOf_def chunksFrom.simps [of 0] chunksFrom_past_end subarray_def)

lemma chunksOf_plainFile: "chunksOf plainFile = [plainFile]"
  by (rule chunksOf_short) (simp add: plainFile_def CHUNK_SIZE_def)

lemma plainTable_no_geometry: "checkedFeatures X plainTable = Inl NoGeometryError"
  by (simp add: plainTable_def checkedFeatures_def collectFeatures_def findGeometryColumn_def
      hasField_def geometryColumns_def)

lemma nullGeometryTable_empty: "checkedFeatures X nullGeometryTable = Inl EmptyResultError"
  by (simp add: nullGeometryTable_def checkedFeatures_def collectFeatures_def
      findGeometryColumn_def hasField_def geometryColumns_def processRow_def getField_def)

text \<open>
  What the code does right. The success path is guarded: a run whose component is
  unmounted publishes no data and does not call \<^verbatim>\<open>onLoad\<close>.
\<close>

lemma processParquetData_unmounted: "processParquetData X False p parquetData = Inr []"
  by (simp add: processParquetData_def)

lemma unmounted_publishes_no_data:
  "SetData fc \<notin> set (loadData X p False False codec)
   \<and> OnLoad \<notin> set (loadData X p False False codec)"
  by (auto simp: loadData_def loadDecompressed_def decompressData_def catchError_def
      processParquetData_unmounted Let_def
      split: sum.splits option.splits decompressResult.splits)

text \<open>
  On the path through the decompression, an error of \<^verbatim>\<open>processParquetData\<close> reaches the
  outer \<^verbatim>\<open>catch\<close> and is the error published.
\<close>

lemma decompressed_path_surfaces_error:
  assumes "decompressData X codec arrayBuffer = (calls, Inr (Some decompressedData))"
    and "load X decompressedData = Inr parquetData"
    and "checkedFeatures X parquetData = Inl err"
  shows "loadDecompressed X p True codec arrayBuffer
         = calls @ Load decompressedData # catchError p err"
  using assms by (simp add: loadDecompressed_def processParquetData_def)

text \<open>
  When the direct load and the processing both succeed, nothing is decompressed and the
  file is decoded once.
\<close>

lemma direct_path_success:
  assumes "fetch X (url p) = Inr arrayBuffer"
    and "load X arrayBuffer = Inr parquetData"
    and "checkedFeatures X parquetData = Inr fs"
  shows "loadData X p True mountedFallback codec
         = Fetch (url p) # Load arrayBuffer # SetData (FeatureCollection fs)
           # (if onLoad p then [OnLoad] else [])"
  using assms by (simp add: loadData_def processParquetData_def)

text \<open>The two errors that \<^verbatim>\<open>processParquetData\<close> throws while mounted.\<close>

lemma processParquetData_throws:
  "findGeometryColumn (schemaOf parquetData) = None
     \<and> \<not> (hasField (schemaOf parquetData) ''latitude''
           \<and> hasField (schemaOf parquetData) ''longitude'')
   \<Longrightarrow> processParquetData X True p parquetData = Inl NoGeometryError"
  "collectFeatures X parquetData = Inr [] \<Longrightarrow>
     processParquetData X True p parquetData = Inl EmptyResultError"
  by (auto simp: processParquetData_def checkedFeatures_def collectFeatures_def)

text \<open>A failed fetch is published whatever the value of \<^verbatim>\<open>isMounted\<close>.\<close>

lemma fetch_failure_published:
  "fetch X (url p) = Inl err \<Longrightarrow>
     loadData X p mountedDirect mountedFallback codec = Fetch (url p) # catchError p err"
  by (simp add: loadData_def)

text \<open>The loader is called at most twice in a run.\<close>

lemma catchError_no_load:
  "filter (\<lambda>e. case e of Load b \<Rightarrow> True | _ \<Rightarrow> False) (catchError p err) = []"
  by (simp add: catchError_def)

lemma published_no_load:
  "processParquetData X m p parquetData = Inr published \<Longrightarrow>
     filter (\<lambda>e. case e of Load b \<Rightarrow> True | _ \<Rightarrow> False) published = []"
  by (auto simp: processParquetData_def split: if_splits sum.splits)

lemma decompressData_no_load:
  "filter (\<lambda>e. case e of Load b \<Rightarrow> True | _ \<Rightarrow> False) (fst (decompressData X codec input)) = []"
  by (simp add: decompressData_def Let_def split: option.splits)

lemma loadDecompressed_one_decode:
  "length (filter (\<lambda>e. case e of Load b \<Rightarrow> True | _ \<Rightarrow> False)
             (loadDecompressed X p m codec arrayBuffer)) \<le> 1"
proof -
  obtain calls res where d: "decompressData X codec arrayBuffer = (calls, res)"
    by (cases "decompressData X codec arrayBuffer")
  with decompressData_no_load [of X codec arrayBuffer]
  have c: "filter (\<lambda>e. case e of Load b \<Rightarrow> True | _ \<Rightarrow> False) calls = []"
    by simp
  show ?thesis
    using d c
    by (auto simp: loadDecompressed_def catchError_no_load
        split: sum.splits option.splits dest: published_no_load)
qed

lemma at_most_two_decodes:
  "length (filter (\<lambda>e. case e of Load b \<Rightarrow> True | _ \<Rightarrow> False)
             (loadData X p mountedDirect mountedFallback codec)) \<le> 2"
  using loadDecompressed_one_decode [of X p mountedFallback codec]
  by (auto simp: loadData_def catchError_no_load le_Suc_eq
      split: sum.splits dest: published_no_load)

text \<open>
  C7, evaluated at a failing input. The file \<open>plainFile\<close> decodes directly to a table with
  the columns \<^verbatim>\<open>id\<close> and \<^verbatim>\<open>name\<close>: no geometry column, no latitude or longitude, so
  \<^verbatim>\<open>processParquetData\<close> throws the error "No geometry column or lat/lon columns found in
  Parquet data". The throw happens inside the inner \<^verbatim>\<open>try\<close> of \<^verbatim>\<open>loadData\<close>, whose
  \<^verbatim>\<open>catch\<close> only logs; the raw bytes are then given to the ZSTD codec, and the error the
  caller sees is the codec's.
\<close>

theorem no_geometry_error_replaced:
  "fetch demo ''plain.parquet'' = Inr plainFile
   \<and> load demo plainFile = Inr plainTable
   \<and> processParquetData demo True demoProps plainTable = Inl NoGeometryError
   \<and> loadData demo demoProps True True (Some (Codec 0))
       = [Fetch ''plain.parquet'', Load plainFile, DecompressChunks [plainFile],
          SetError (External ''Not a ZSTD frame''), OnError (External ''Not a ZSTD frame'')]"
  by (simp add: loadData_def loadDecompressed_def decompressData_def catchError_def
      processParquetData_def plainTable_no_geometry chunksOf_plainFile demo_def demoProps_def)

text \<open>
  C8, evaluated at a failing input. The direct decode of \<open>plainFile\<close> succeeds, with a
  table whose only row has a \<^verbatim>\<open>null\<close> geometry, so \<^verbatim>\<open>processParquetData\<close> throws the error
  "No valid features found in Parquet data" inside the inner \<^verbatim>\<open>try\<close>. The buffer is
  decompressed all the same and the decode is run a second time, on the codec's output;
  the error the caller sees is the one of that second decode.
\<close>

theorem decompression_after_successful_decode:
  "load demoRetry plainFile = Inr nullGeometryTable
   \<and> processParquetData demoRetry True demoProps nullGeometryTable = Inl EmptyResultError
   \<and> loadData demoRetry demoProps True True (Some (Codec 0))
       = [Fetch ''plain.parquet'', Load plainFile, DecompressChunks [plainFile], Load [0],
          SetError (External ''Invalid Parquet file''),
          OnError (External ''Invalid Parquet file'')]"
  by (simp add: loadData_def loadDecompressed_def decompressData_def catchError_def
      processParquetData_def nullGeometryTable_empty chunksOf_plainFile
      chunksOf_plainFile [unfolded plainFile_def] demoRetry_def demo_def demoProps_def
      plainFile_def)

text \<open>
  C3, evaluated at a failing input. The component is unmounted before the fetch settles
  (both flags are false) and the fetch then fails: the outer \<^verbatim>\<open>catch\<close> sets the error state
  and calls \<^verbatim>\<open>onError\<close> without reading \<^verbatim>\<open>isMounted\<close>.
\<close>

theorem error_published_after_unmount:
  "loadData demo (demoProps\<lparr>url := ''gone.parquet''\<rparr>) False False None
     = [Fetch ''gone.parquet'', SetError (External ''Failed to fetch''),
        OnError (External ''Failed to fetch'')]"
  by (simp add: loadData_def catchError_def demo_def demoProps_def)

section \<open>Callers of the shared codec\<close>

lemma preloadZstd_runs:
  assumes "runs s = (if zstdPromise s = None then 0 else 1)"
  shows "runs (preloadZstd st s) = (if zstdPromise (preloadZstd st s) = None then 0 else 1)"
  using assms by (cases st) (auto split: option.splits promise.splits)

lemma fold_preloadZstd_runs:
  "runs s = (if zstdPromise s = None then 0 else 1) \<Longrightarrow>
     runs (fold preloadZstd steps s)
       = (if zstdPromise (fold preloadZstd steps s) = None then 0 else 1)"
proof (induction steps arbitrary: s)
  case Nil
  then show ?case by simp
next
  case (Cons st steps)
  from Cons.prems have "runs (preloadZstd st s)
      = (if zstdPromise (preloadZstd st s) = None then 0 else 1)"
    by (rule preloadZstd_runs)
  from Cons.IH [OF this] show ?case by simp
qed

text \<open>What the code does right: \<^verbatim>\<open>ZstdCodec.run\<close> is called at most once, in any order of events.\<close>

lemma codec_initialised_at_most_once: "runs (schedule steps) \<le> 1"
  using fold_preloadZstd_runs [of initialState steps]
  by (simp add: schedule_def initialState_def split: if_splits)

text \<open>
  C4, evaluated at a failing input. Caller 0 starts the initialisation and waits; caller 1
  calls \<^verbatim>\<open>preloadZstd\<close> before the codec is ready, finds \<^verbatim>\<open>zstdPromise\<close> set and returns
  the variable \<^verbatim>\<open>zstd\<close>, which is still \<^verbatim>\<open>undefined\<close>. Caller 0 later gets the codec. The
  initialisation ran once, yet caller 1 holds no codec, and its \<^verbatim>\<open>decompressData\<close> fails
  with a TypeError.
\<close>

theorem second_caller_gets_undefined:
  "callers (schedule [Call 0, Call 1, CodecReady (Codec 7), Resume 0]) 0
     = Returned (Some (Codec 7))
   \<and> callers (schedule [Call 0, Call 1, CodecReady (Codec 7), Resume 0]) 1 = Returned None
   \<and> runs (schedule [Call 0, Call 1, CodecReady (Codec 7), Resume 0]) = 1
   \<and> decompressData demo None plainFile
       = ([], Inl (TypeError ''Cannot read properties of undefined (reading Streaming)''))"
  by (simp add: schedule_def initialState_def decompressData_def)

end
